theory Spec2Isabelle
  imports Complex_Main
begin

section \<open>Source maps: the stencil of \<^verbatim>\<open>HeritageMap\<close>\<close>

text \<open>
  \<^verbatim>\<open>typedef struct { unsigned int index; interpol_t weight; } hi;\<close>
  The floating-point type \<^verbatim>\<open>interpol_t\<close> and the \<^verbatim>\<open>double\<close> locals of the
  constructor are idealised as real numbers. The indices are \<^verbatim>\<open>unsigned int\<close>; the
  mesh sizes are \<^verbatim>\<open>uint16_t\<close>, so \<^verbatim>\<open>i*_ysize+j+1\<close> stays below \<open>2 ^ 32\<close> and
  never wraps (lemma \<open>fp_index_no_wrap\<close> below): the indices are natural numbers.
\<close>

record hi =
  index :: nat
  weight :: real

text \<open>
  \<^verbatim>\<open>enum class FPType\<close>. The constructor's \<^verbatim>\<open>switch\<close> has a \<^verbatim>\<open>default: break;\<close>
  branch for a value that is none of the four enumerators: \<open>fpt_other\<close>.
\<close>

datatype FPType = none | damping_only | diffusion_only | full | fpt_other

text \<open>
  \<^verbatim>\<open>_heritage_map[x][y][k]\<close>, an \<open>xsize \<times> ysize \<times> _ip\<close> array. The base class
  constructor \<^verbatim>\<open>HeritageMap(in, out, xsize, ysize, interpoints)\<close> is only declared
  in the sources; it allocates the array, and what it leaves in the entries is the
  parameter \<open>h0\<close>.
\<close>

definition alloc_heritage_map :: "hi \<Rightarrow> nat \<Rightarrow> nat \<Rightarrow> nat \<Rightarrow> hi list list list" where
  "alloc_heritage_map h0 xsize ysize ip = replicate xsize (replicate ysize (replicate ip h0))"

text \<open>The pair \<^verbatim>\<open>{0,0}\<close> written at the boundary rows and in unused entries.\<close>

definition zero_hi :: hi where
  "zero_hi = \<lparr>index = 0, weight = 0\<rparr>"

text \<open>The three assignments \<^verbatim>\<open>m[i][j][0] = a; m[i][j][1] = b; m[i][j][2] = c;\<close> on one cell.\<close>

definition assign3 :: "hi list \<Rightarrow> hi \<Rightarrow> hi \<Rightarrow> hi \<Rightarrow> hi list" where
  "assign3 cell a b c = cell[0 := a, 1 := b, 2 := c]"

subsection \<open>The constructor \<^verbatim>\<open>vfps::FokkerPlanckMap::FokkerPlanckMap\<close>\<close>

text \<open>
  The \<^verbatim>\<open>const double\<close> locals. \<open>delta1\<close> is \<^verbatim>\<open>in->getDelta(1)\<close>, the grid spacing
  in \<open>p\<close>, and \<open>x1 j\<close> is \<^verbatim>\<open>in->x(1,j)\<close>, the \<open>p\<close>-coordinate of row \<open>j\<close>; the class
  \<^verbatim>\<open>PhaseSpace\<close> is not part of the sources, so both are parameters.
\<close>

definition e02d :: "real \<Rightarrow> real \<Rightarrow> real" where
  "e02d e0 delta1 = e0 / (2 * delta1)"

definition e02d2 :: "real \<Rightarrow> real \<Rightarrow> real" where
  "e02d2 e0 delta1 = e0 / (delta1 * delta1)"

definition daome :: "real \<Rightarrow> real" where
  "daome e0 = 1 + e0"

definition diome :: "real \<Rightarrow> real \<Rightarrow> real" where
  "diome e0 delta1 = 1 - 2 * e02d2 e0 delta1"

definition fptme :: "real \<Rightarrow> real \<Rightarrow> real" where
  "fptme e0 delta1 = 1 + e0 - 2 * e02d2 e0 delta1"

text \<open>
  The inner loop \<^verbatim>\<open>for (uint16_t j=a; j< b; j++) { ... _heritage_map[i][j][k] = ... }\<close>:
  \<open>body j\<close> rewrites the cell of row \<open>j\<close>. (\<open>j\<close> stays below \<open>ysize - 1 < 2 ^ 16\<close>,
  so the \<^verbatim>\<open>uint16_t\<close> counter never wraps.)
\<close>

definition for_rows ::
  "nat \<Rightarrow> nat \<Rightarrow> (nat \<Rightarrow> hi list \<Rightarrow> hi list) \<Rightarrow> hi list list \<Rightarrow> hi list list" where
  "for_rows a b body col = fold (\<lambda>j c. c[j := body j (c ! j)]) [a..<b] col"

text \<open>The loop bodies of the four \<^verbatim>\<open>case\<close> branches.\<close>

definition body_none :: "nat \<Rightarrow> nat \<Rightarrow> nat \<Rightarrow> hi list \<Rightarrow> hi list" where
  "body_none ysize i j cell =
     assign3 cell
       \<lparr>index = i * ysize + j, weight = 1\<rparr>
       \<lparr>index = 0, weight = 0\<rparr>
       \<lparr>index = 0, weight = 0\<rparr>"

definition body_damping_only ::
  "real \<Rightarrow> real \<Rightarrow> (nat \<Rightarrow> real) \<Rightarrow> nat \<Rightarrow> nat \<Rightarrow> nat \<Rightarrow> hi list \<Rightarrow> hi list" where
  "body_damping_only e0 delta1 x1 ysize i j cell =
     assign3 cell
       \<lparr>index = i * ysize + j - 1, weight = e02d e0 delta1 * x1 j\<rparr>
       \<lparr>index = i * ysize + j, weight = daome e0\<rparr>
       \<lparr>index = i * ysize + j + 1, weight = - e02d e0 delta1 * x1 j\<rparr>"

definition body_diffusion_only ::
  "real \<Rightarrow> real \<Rightarrow> nat \<Rightarrow> nat \<Rightarrow> nat \<Rightarrow> hi list \<Rightarrow> hi list" where
  "body_diffusion_only e0 delta1 ysize i j cell =
     assign3 cell
       \<lparr>index = i * ysize + j - 1, weight = e02d2 e0 delta1\<rparr>
       \<lparr>index = i * ysize + j, weight = diome e0 delta1\<rparr>
       \<lparr>index = i * ysize + j + 1, weight = e02d2 e0 delta1\<rparr>"

definition body_full ::
  "real \<Rightarrow> real \<Rightarrow> (nat \<Rightarrow> real) \<Rightarrow> nat \<Rightarrow> nat \<Rightarrow> nat \<Rightarrow> hi list \<Rightarrow> hi list" where
  "body_full e0 delta1 x1 ysize i j cell =
     assign3 cell
       \<lparr>index = i * ysize + j - 1, weight = e02d2 e0 delta1 + e02d e0 delta1 * x1 j\<rparr>
       \<lparr>index = i * ysize + j, weight = fptme e0 delta1\<rparr>
       \<lparr>index = i * ysize + j + 1, weight = e02d2 e0 delta1 - e02d e0 delta1 * x1 j\<rparr>"

text \<open>
  The body of the outer loop for one \<open>i\<close>, acting on \<^verbatim>\<open>_heritage_map[i]\<close>: row \<open>0\<close> is
  zeroed, the \<^verbatim>\<open>switch\<close> runs the inner loop \<^verbatim>\<open>for (uint16_t j=1; j< _ysize-1; j++)\<close>
  of the chosen variant, and row \<^verbatim>\<open>_ysize-1\<close> is zeroed. (\<^verbatim>\<open>_ysize-1\<close> is computed
  in \<^verbatim>\<open>int\<close>; for \<open>ysize = 0\<close> the inner loops do not run, as \<open>[1..<0]\<close> is empty,
  and the writes to rows \<open>0\<close> and \<open>-1\<close> are out of bounds in the source: the model is
  meant for \<open>0 < ysize\<close>.)
\<close>

definition fp_column ::
  "FPType \<Rightarrow> real \<Rightarrow> real \<Rightarrow> (nat \<Rightarrow> real) \<Rightarrow> nat \<Rightarrow> nat \<Rightarrow> hi list list \<Rightarrow> hi list list" where
  "fp_column fpt e0 delta1 x1 ysize i col =
    (let col0 = col[0 := assign3 (col ! 0) zero_hi zero_hi zero_hi];
         col1 =
          (case fpt of
             none \<Rightarrow> for_rows 1 (ysize - 1) (body_none ysize i) col0
           | damping_only \<Rightarrow>
               for_rows 1 (ysize - 1) (body_damping_only e0 delta1 x1 ysize i) col0
           | diffusion_only \<Rightarrow>
               for_rows 1 (ysize - 1) (body_diffusion_only e0 delta1 ysize i) col0
           | full \<Rightarrow> for_rows 1 (ysize - 1) (body_full e0 delta1 x1 ysize i) col0
           | fpt_other \<Rightarrow> col0)
     in col1[ysize - 1 := assign3 (col1 ! (ysize - 1)) zero_hi zero_hi zero_hi])"

text \<open>The whole constructor: \<^verbatim>\<open>for (unsigned int i=0; i< _xsize; i++)\<close> over the array.\<close>

definition FokkerPlanckMap ::
  "hi \<Rightarrow> nat \<Rightarrow> nat \<Rightarrow> real \<Rightarrow> (nat \<Rightarrow> real) \<Rightarrow> FPType \<Rightarrow> real \<Rightarrow> hi list list list" where
  "FokkerPlanckMap h0 xsize ysize delta1 x1 fpt e0 =
     fold (\<lambda>i hm. hm[i := fp_column fpt e0 delta1 x1 ysize i (hm ! i)]) [0..<xsize]
       (alloc_heritage_map h0 xsize ysize 3)"

subsection \<open>Applying a map\<close>

text \<open>
  Modelled from the spec: \<^verbatim>\<open>HeritageMap::apply()\<close> is only declared in the sources.
  The spec's contract is \<^verbatim>\<open>out[k] = \<Sum>\<^sub>i w\<^sub>i \<sqdot> in[s\<^sub>i]\<close>: each output cell \<open>k\<close> is the
  weighted sum of the \<open>K\<close> input cells its stencil names. The mesh data is the flat
  array of \<open>xsize * ysize\<close> cells, cell \<open>(x, y)\<close> at \<open>x * ysize + y\<close>, as the
  indices \<^verbatim>\<open>i*_ysize+j\<close> of the constructor address it.
\<close>

definition cell_value :: "hi list \<Rightarrow> real list \<Rightarrow> real" where
  "cell_value cell inp = sum_list (map (\<lambda>h. weight h * inp ! index h) cell)"

definition apply_map :: "hi list list list \<Rightarrow> nat \<Rightarrow> nat \<Rightarrow> real list \<Rightarrow> real list" where
  "apply_map hm xsize ysize inp =
     map (\<lambda>k. cell_value (hm ! (k div ysize) ! (k mod ysize)) inp) [0..<xsize * ysize]"

text \<open>
  Modelled from the spec: the class \<^verbatim>\<open>Identity\<close> is not part of the sources. The spec
  lists it among the source maps as the identity, the strict pass-through of the input
  mesh to the output mesh.
\<close>

definition apply_Identity :: "nat \<Rightarrow> nat \<Rightarrow> real list \<Rightarrow> real list" where
  "apply_Identity xsize ysize inp = map (\<lambda>k. inp ! k) [0..<xsize * ysize]"

text \<open>The weights the specification's text gives for an interior row of the full stencil.\<close>

definition spec_w_minus :: "real \<Rightarrow> real \<Rightarrow> real \<Rightarrow> real" where
  "spec_w_minus e dp pj = e / (2 * dp\<^sup>2) + e / (2 * dp) * pj"

definition spec_w_zero :: "real \<Rightarrow> real \<Rightarrow> real" where
  "spec_w_zero e dp = 1 + e - e / dp\<^sup>2"

definition spec_w_plus :: "real \<Rightarrow> real \<Rightarrow> real \<Rightarrow> real" where
  "spec_w_plus e dp pj = e / (2 * dp\<^sup>2) - e / (2 * dp) * pj"

text \<open>The sum of the weights of one output cell.\<close>

definition weight_sum :: "hi list \<Rightarrow> real" where
  "weight_sum cell = sum_list (map weight cell)"

section \<open>The program: \<^verbatim>\<open>main\<close> of \<^verbatim>\<open>src/main.cpp\<close>\<close>

text \<open>
  \<^verbatim>\<open>double\<close> values are idealised as real numbers. The \<^verbatim>\<open>float\<close> arithmetic that
  decides how often the loops run is modelled with its rounding (\<open>float32\<close> below); the
  other \<^verbatim>\<open>float\<close> values are idealised as real numbers. \<^verbatim>\<open>unsigned int\<close> values are
  natural numbers, with the wrap-around at \<open>2 ^ 32\<close> written out where a counter is
  incremented.
\<close>

subsection \<open>Single precision\<close>

text \<open>
  Rounding of a real number to IEEE 754 binary32, to nearest with ties to even: the
  exponent of \<open>x\<close> is \<open>\<lfloor>log\<^sub>2 \<bar>x\<bar>\<rfloor>\<close>, not below \<open>-126\<close> (subnormal numbers), and \<open>x\<close> is
  rounded to a multiple of \<open>2\<close> to the power of the exponent minus \<open>23\<close>. NaN and the
  infinities are not modelled: a value beyond the largest \<^verbatim>\<open>float\<close> stays a finite real
  beyond every value of an \<^verbatim>\<open>unsigned int\<close>, so a comparison with a counter comes out
  as it does with an infinity.
\<close>

definition float_exponent :: "real \<Rightarrow> int" where
  "float_exponent x = max \<lfloor>log 2 \<bar>x\<bar>\<rfloor> (- 126)"

definition round_ties_even :: "real \<Rightarrow> int" where
  "round_ties_even y =
     (if y - of_int \<lfloor>y\<rfloor> < 1 / 2 then \<lfloor>y\<rfloor>
      else if 1 / 2 < y - of_int \<lfloor>y\<rfloor> then \<lfloor>y\<rfloor> + 1
      else if even \<lfloor>y\<rfloor> then \<lfloor>y\<rfloor> else \<lfloor>y\<rfloor> + 1)"

definition float32 :: "real \<Rightarrow> real" where
  "float32 x =
     (if x = 0 then 0
      else of_int (round_ties_even (x / 2 powi (float_exponent x - 23)))
           * 2 powi (float_exponent x - 23))"

subsection \<open>Options and environment\<close>

text \<open>What \<^verbatim>\<open>opts.parse(argc,argv)\<close> does: it returns a \<^verbatim>\<open>bool\<close> or throws.\<close>

datatype parse_outcome = parse_true | parse_false | parse_throws

text \<open>
  The values of the getters of \<^verbatim>\<open>ProgramOptions\<close> that \<^verbatim>\<open>main\<close> branches on.
  \<^verbatim>\<open>getRenormalizeCharge\<close> is not declared in the sources (\<^verbatim>\<open>main\<close> takes its type
  with \<^verbatim>\<open>auto\<close>); an integer covers a signed and an unsigned declaration.
  \<^verbatim>\<open>getNRotations\<close> returns a \<^verbatim>\<open>float\<close>: the field holds its value.
\<close>

record ProgramOptions =
  parse :: parse_outcome
  getCLDevice :: int
  getOutFile :: string
  getStartDistFile :: string
  getImpedanceFile :: string
  getWakeFile :: string
  getGridSize :: nat
  getSteps :: nat
  getOutSteps :: nat
  getNRotations :: real
  getRenormalizeCharge :: int
  getHaissinskiIterations :: nat
  getRotationType :: nat
  getVacuumChamberGap :: real
  getDampingTime :: real
  getSyncFreq :: real
  getRevolutionFrequency :: real
  getBendingRadius :: real
  getAlpha0 :: real
  getHarmonicNumber :: real
  getRFVoltage :: real
  getBeamEnergy :: real

text \<open>
  What \<^verbatim>\<open>main\<close> obtains from code and files outside the sources: the helper
  \<^verbatim>\<open>isOfFileType\<close>, the constant \<^verbatim>\<open>physcons::c\<close>, the width
  \<^verbatim>\<open>mesh1->nMeshCells(0)\<close> of a mesh loaded from an HDF5 file, the length
  \<^verbatim>\<open>impedance->nFreqs()\<close> of an impedance loaded from a file, whether
  \<^verbatim>\<open>make_display\<close> returned a display, and the largest number of elements for which
  the construction of a \<^verbatim>\<open>std::vector<float>\<close> succeeds.
\<close>

record environment =
  isOfFileType :: "string \<Rightarrow> string \<Rightarrow> bool"
  physcons_c :: real
  startdist_nMeshCells :: nat
  impedance_nFreqs :: nat
  display_present :: bool
  max_vector_length :: nat

subsection \<open>The locals of \<^verbatim>\<open>main\<close>\<close>

definition R_bend :: "ProgramOptions \<Rightarrow> environment \<Rightarrow> real" where
  "R_bend opts env =
     (if getBendingRadius opts > 0 then getBendingRadius opts
      else physcons_c env / (2 * pi * getRevolutionFrequency opts))"

definition f0 :: "ProgramOptions \<Rightarrow> environment \<Rightarrow> real" where
  "f0 opts env =
     (if getBendingRadius opts \<le> 0 then getRevolutionFrequency opts
      else physcons_c env / (2 * pi * R_bend opts env))"

definition isoscale :: "ProgramOptions \<Rightarrow> environment \<Rightarrow> real" where
  "isoscale opts env = getRevolutionFrequency opts / f0 opts env"

text \<open>\<^verbatim>\<open>fs_tmp\<close> after the \<^verbatim>\<open>if (fs_tmp < 0)\<close>: a negative option means "use alpha0".\<close>

definition fs_unscaled :: "ProgramOptions \<Rightarrow> real" where
  "fs_unscaled opts =
     (if getSyncFreq opts < 0
      then getRevolutionFrequency opts
           * sqrt (getAlpha0 opts * getHarmonicNumber opts * getRFVoltage opts
                   / (2 * pi * getBeamEnergy opts))
      else getSyncFreq opts)"

definition fs :: "ProgramOptions \<Rightarrow> environment \<Rightarrow> real" where
  "fs opts env = fs_unscaled opts / isoscale opts env"

text \<open>\<^verbatim>\<open>const unsigned int steps = std::max(opts.getSteps(),1u);\<close>\<close>

definition steps :: "ProgramOptions \<Rightarrow> nat" where
  "steps opts = max (getSteps opts) 1"

definition t_d :: "ProgramOptions \<Rightarrow> environment \<Rightarrow> real" where
  "t_d opts env = isoscale opts env * getDampingTime opts"

text \<open>\<^verbatim>\<open>const double dt = 1.0/(fs*steps);\<close> and its denominator.\<close>

definition dt_denominator :: "ProgramOptions \<Rightarrow> environment \<Rightarrow> real" where
  "dt_denominator opts env = fs opts env * real (steps opts)"

definition dt :: "ProgramOptions \<Rightarrow> environment \<Rightarrow> real" where
  "dt opts env = 1 / dt_denominator opts env"

text \<open>\<^verbatim>\<open>const meshaxis_t angle = 2*M_PI/steps;\<close>\<close>

definition angle :: "ProgramOptions \<Rightarrow> real" where
  "angle opts = 2 * pi / real (steps opts)"

text \<open>\<^verbatim>\<open>if (t_d > 0) { e1 = 2.0/(fs*t_d*steps); } else { e1=0; }\<close>\<close>

definition e1 :: "ProgramOptions \<Rightarrow> environment \<Rightarrow> real" where
  "e1 opts env =
     (if t_d opts env > 0 then 2 / (fs opts env * t_d opts env * real (steps opts)) else 0)"

subsection \<open>Meshes, maps and the trace of calls\<close>

datatype mesh = mesh1 | mesh2 | mesh3

text \<open>The classes of the source maps that \<^verbatim>\<open>main\<close> constructs.\<close>

datatype map_class =
    cRotationMap
  | cRFKickMap
  | cDriftMap
  | cFokkerPlanckMap FPType real
  | cIdentity
  | cWakePotentialMap
  | cWakeFunctionMap

text \<open>A constructed map: its class and the meshes passed as \<^verbatim>\<open>in\<close> and \<^verbatim>\<open>out\<close>.\<close>

record source_map =
  sm_class :: map_class
  sm_in :: mesh
  sm_out :: mesh

text \<open>
  The calls that \<^verbatim>\<open>main\<close> makes on the maps and on \<^verbatim>\<open>mesh1\<close>, in program order.
  \<open>Update m\<close> is \<^verbatim>\<open>wkm->update()\<close>, \<open>Apply m\<close> is \<^verbatim>\<open>m->apply()\<close>, \<open>ApplyTo m\<close> is
  \<^verbatim>\<open>m->applyTo(trackme)\<close>; \<open>Normalize\<close>, \<open>Integral\<close>, \<open>Variance a\<close>,
  \<open>UpdateXProjection\<close>, \<open>UpdateYProjection\<close> and \<open>CreateFromProjections\<close> are the
  methods of \<^verbatim>\<open>mesh1\<close>; \<open>Output i\<close> stands for the saving, drawing and status
  printing of the output block of step \<open>i\<close>, \<open>FinalOutput\<close> for the saving after the
  loop.
\<close>

datatype event =
    Update source_map
  | Apply source_map
  | ApplyTo source_map
  | Normalize
  | Integral
  | Variance nat
  | UpdateXProjection
  | UpdateYProjection
  | CreateFromProjections
  | Output nat
  | FinalOutput

subsection \<open>Construction of the maps\<close>

text \<open>\<^verbatim>\<open>switch (rotationtype)\<close>: the maps \<^verbatim>\<open>rm1\<close> and \<^verbatim>\<open>rm2\<close> (\<open>None\<close> is \<^verbatim>\<open>nullptr\<close>).\<close>

definition build_rm1 :: "ProgramOptions \<Rightarrow> source_map" where
  "build_rm1 opts =
     (if getRotationType opts = 0
        then \<lparr>sm_class = cRotationMap, sm_in = mesh1, sm_out = mesh3\<rparr>
      else if getRotationType opts = 1
        then \<lparr>sm_class = cRotationMap, sm_in = mesh2, sm_out = mesh3\<rparr>
      else \<lparr>sm_class = cRFKickMap, sm_in = mesh2, sm_out = mesh1\<rparr>)"

definition build_rm2 :: "ProgramOptions \<Rightarrow> source_map option" where
  "build_rm2 opts =
     (if getRotationType opts = 0 then None
      else if getRotationType opts = 1 then None
      else Some \<lparr>sm_class = cDriftMap, sm_in = mesh1, sm_out = mesh3\<rparr>)"

text \<open>\<^verbatim>\<open>if (e1 > 0) fpm = new FokkerPlanckMap(mesh3,mesh1,...,full,e1,...) else new Identity(mesh3,mesh1,...)\<close>\<close>

definition build_fpm :: "ProgramOptions \<Rightarrow> environment \<Rightarrow> source_map" where
  "build_fpm opts env =
     (if e1 opts env > 0
      then \<lparr>sm_class = cFokkerPlanckMap full (e1 opts env), sm_in = mesh3, sm_out = mesh1\<rparr>
      else \<lparr>sm_class = cIdentity, sm_in = mesh3, sm_out = mesh1\<rparr>)"

text \<open>
  \<^verbatim>\<open>wkm\<close>: a \<^verbatim>\<open>WakeFunctionMap\<close> when \<^verbatim>\<open>wakefile.size() > 4\<close>, else a
  \<^verbatim>\<open>WakePotentialMap\<close> when \<^verbatim>\<open>gap != 0\<close>, else it stays \<^verbatim>\<open>nullptr\<close>.
\<close>

definition build_wkm :: "ProgramOptions \<Rightarrow> source_map option" where
  "build_wkm opts =
     (if length (getWakeFile opts) > 4
        then Some \<lparr>sm_class = cWakeFunctionMap, sm_in = mesh1, sm_out = mesh2\<rparr>
      else if getVacuumChamberGap opts \<noteq> 0
        then Some \<lparr>sm_class = cWakePotentialMap, sm_in = mesh1, sm_out = mesh2\<rparr>
      else None)"

text \<open>\<^verbatim>\<open>if (wkm != nullptr) wm = wkm; else wm = new Identity(mesh1,mesh2,ps_size,ps_size);\<close>\<close>

definition build_wm :: "ProgramOptions \<Rightarrow> source_map" where
  "build_wm opts =
     (case build_wkm opts of
        Some w \<Rightarrow> w
      | None \<Rightarrow> \<lparr>sm_class = cIdentity, sm_in = mesh1, sm_out = mesh2\<rparr>)"

subsection \<open>The main simulation loop\<close>

text \<open>The body of the loop for the step index \<open>i\<close>, as the list of the calls it makes.\<close>

definition loop_body :: "ProgramOptions \<Rightarrow> environment \<Rightarrow> nat \<Rightarrow> event list" where
  "loop_body opts env i =
     (case build_wkm opts of Some w \<Rightarrow> [Update w] | None \<Rightarrow> [])
     @ (if getRenormalizeCharge opts > 0 \<and> int i mod getRenormalizeCharge opts = 0
        then [Normalize] else [Integral])
     @ (if getOutSteps opts > 0 \<and> i mod getOutSteps opts = 0
        then [Variance 0, UpdateYProjection, Variance 1, Output i] else [])
     @ [Apply (build_wm opts), ApplyTo (build_wm opts),
        Apply (build_rm1 opts), ApplyTo (build_rm1 opts)]
     @ (case build_rm2 opts of Some r \<Rightarrow> [Apply r, ApplyTo r] | None \<Rightarrow> [])
     @ [Apply (build_fpm opts env), ApplyTo (build_fpm opts env), UpdateXProjection]"

text \<open>
  The bound \<^verbatim>\<open>steps*rotations\<close> of the loop: \<^verbatim>\<open>steps\<close> is converted to \<^verbatim>\<open>float\<close> and
  the product is a \<^verbatim>\<open>float\<close>.
\<close>

definition loop_bound :: "ProgramOptions \<Rightarrow> real" where
  "loop_bound opts = float32 (float32 (real (steps opts)) * getNRotations opts)"

text \<open>
  \<^verbatim>\<open>for (unsigned int i=0, outstepnr=0;i<steps*rotations;i++) { ... }\<close>
  For the comparison \<open>i\<close> is converted to \<^verbatim>\<open>float\<close>; \<^verbatim>\<open>i++\<close> wraps at \<open>2 ^ 32\<close>. The
  loop returns the calls made so far, and \<open>None\<close> when it never ends.
\<close>

partial_function (option) main_loop ::
  "ProgramOptions \<Rightarrow> environment \<Rightarrow> nat \<Rightarrow> event list \<Rightarrow> event list option" where
  "main_loop opts env i tr =
     (if float32 (real i) < loop_bound opts
      then main_loop opts env ((i + 1) mod 2 ^ 32) (tr @ loop_body opts env i)
      else Some tr)"

subsection \<open>The program\<close>

datatype exit_code = EXIT_SUCCESS | EXIT_FAILURE

text \<open>
  How a run ends: \<open>Quit c msg\<close> is a \<^verbatim>\<open>return c;\<close> before the simulation, after the
  message \<open>msg\<close> was written; \<open>Aborted\<close> is the failed construction of the vector
  \<^verbatim>\<open>csrlog\<close>; \<open>Crashed\<close> is the dereference of a null pointer in the Haissinski loop;
  \<open>Finished c tr\<close> is the \<^verbatim>\<open>return c;\<close> at the end, after the calls \<open>tr\<close>.
\<close>

datatype outcome =
    Quit exit_code string
  | Aborted
  | Crashed
  | Finished exit_code "event list"

text \<open>
  The loading of the initial distribution: \<open>Some (c, msg)\<close> is an early return.
\<close>

definition load_startdist :: "ProgramOptions \<Rightarrow> environment \<Rightarrow> (exit_code \<times> string) option" where
  "load_startdist opts env =
     (let startdistfile = getStartDistFile opts in
      if length startdistfile \<le> 4 then None
      else if isOfFileType env ''.png'' startdistfile then None
      else if isOfFileType env ''.h5'' startdistfile \<or> isOfFileType env ''.hdf5'' startdistfile
        then (if getGridSize opts \<noteq> startdist_nMeshCells env
              then Some (EXIT_SUCCESS, startdistfile @ '' does not match set GridSize.'')
              else None)
      else if isOfFileType env ''.txt'' startdistfile then None
      else Some (EXIT_SUCCESS, ''Unknown format of input file. Will now quit.''))"

text \<open>
  \<^verbatim>\<open>std::vector<float> csrlog(std::ceil(steps*rotations/outstep)+1,0);\<close>
  The length is computed in \<^verbatim>\<open>float\<close> and converted to the vector's size type. With
  \<open>outstep = 0\<close> the quotient is an infinity or NaN; the conversion of such a value,
  or of a negative one, is undefined, and a length beyond what the allocator grants
  throws an exception that nothing catches: in all these cases the run is aborted.
\<close>

definition csrlog_length :: "ProgramOptions \<Rightarrow> real" where
  "csrlog_length opts =
     float32 (of_int \<lceil>float32 (loop_bound opts / float32 (real (getOutSteps opts)))\<rceil> + 1)"

definition csrlog_constructed :: "ProgramOptions \<Rightarrow> environment \<Rightarrow> bool" where
  "csrlog_constructed opts env \<longleftrightarrow>
     getOutSteps opts \<noteq> 0 \<and> 0 \<le> csrlog_length opts
     \<and> csrlog_length opts \<le> real (max_vector_length env)"

text \<open>
  The impedance: read from a file when a file name is given, and then rejected when
  \<^verbatim>\<open>impedance->nFreqs() < ps_size\<close>.
\<close>

definition load_impedance :: "ProgramOptions \<Rightarrow> environment \<Rightarrow> (exit_code \<times> string) option" where
  "load_impedance opts env =
     (if getImpedanceFile opts = [] then None
      else if impedance_nFreqs env < getGridSize opts
        then Some (EXIT_SUCCESS, ''No valid impedance file. Will now quit.'')
      else None)"

text \<open>
  The draft of the Haissinski solver: \<^verbatim>\<open>for (uint32_t i=0;i<haisi;i++)\<close>, whose body
  calls \<^verbatim>\<open>wkm->update()\<close> and \<^verbatim>\<open>display->draw()\<close> with no check for \<^verbatim>\<open>nullptr\<close>.
\<close>

definition haissinski :: "ProgramOptions \<Rightarrow> environment \<Rightarrow> event list option" where
  "haissinski opts env =
     (if getHaissinskiIterations opts = 0 then Some []
      else case build_wkm opts of
             None \<Rightarrow> None
           | Some w \<Rightarrow>
               if display_present env
               then Some (concat (replicate (getHaissinskiIterations opts)
                                    [Update w, CreateFromProjections]))
               else None)"

text \<open>The calls after the loop, made when the results go to an HDF5 file.\<close>

definition final_save :: "ProgramOptions \<Rightarrow> environment \<Rightarrow> event list" where
  "final_save opts env =
     (if isOfFileType env ''.h5'' (getOutFile opts) \<or> isOfFileType env ''.hdf5'' (getOutFile opts)
      then (case build_wkm opts of Some w \<Rightarrow> [Update w] | None \<Rightarrow> [])
           @ (if getRenormalizeCharge opts > 0 then [Normalize] else [Integral])
           @ [Variance 0, UpdateYProjection, Variance 1, FinalOutput]
      else [])"

text \<open>
  \<^verbatim>\<open>main\<close>, for the build with all of \<^verbatim>\<open>INOVESA_USE_CL\<close>, \<^verbatim>\<open>_GUI\<close>, \<^verbatim>\<open>_HDF5\<close> and
  \<^verbatim>\<open>_PNG\<close> defined. The result is \<open>None\<close> when the main loop never ends.
\<close>

definition main :: "ProgramOptions \<Rightarrow> environment \<Rightarrow> outcome option" where
  "main opts env =
     (case parse opts of
        parse_throws \<Rightarrow> Some (Quit EXIT_FAILURE ''error: '')
      | parse_false \<Rightarrow> Some (Quit EXIT_SUCCESS [])
      | parse_true \<Rightarrow>
          if getCLDevice opts < 0 then Some (Quit EXIT_SUCCESS [])
          else case load_startdist opts env of
            Some (c, msg) \<Rightarrow> Some (Quit c msg)
          | None \<Rightarrow>
             if \<not> csrlog_constructed opts env then Some Aborted
             else
             (case load_impedance opts env of
                Some (c, msg) \<Rightarrow> Some (Quit c msg)
              | None \<Rightarrow>
                 (case haissinski opts env of
                    None \<Rightarrow> Some Crashed
                  | Some pre \<Rightarrow>
                     (case main_loop opts env 0
                             (pre @ [UpdateXProjection, Integral, UpdateYProjection, Variance 1]) of
                        None \<Rightarrow> None
                      | Some tr \<Rightarrow> Some (Finished EXIT_SUCCESS (tr @ final_save opts env))))))"

section \<open>The older \<^verbatim>\<open>main\<close> (unnamed source part 0)\<close>






text \<open>The calls of the main loop that the per-step sequence of the specification names.\<close>

fun is_stage :: "event \<Rightarrow> bool" where
  "is_stage (Update m) = True"
| "is_stage (Apply m) = True"
| "is_stage UpdateXProjection = True"
| "is_stage e = False"

fun is_update :: "event \<Rightarrow> bool" where
  "is_update (Update m) = True"
| "is_update e = False"

fun is_normalize_or_integral :: "event \<Rightarrow> bool" where
  "is_normalize_or_integral Normalize = True"
| "is_normalize_or_integral Integral = True"
| "is_normalize_or_integral e = False"



text \<open>
  A concrete configuration for evaluating the model: a \<open>4 \<times> 4\<close> grid, no input files,
  no vacuum chamber gap, no damping, one step per synchrotron period, one rotation.
\<close>

definition example_options :: ProgramOptions where
  "example_options =
     \<lparr>parse = parse_true, getCLDevice = 0, getOutFile = ''/dev/null'',
      getStartDistFile = [], getImpedanceFile = [], getWakeFile = [],
      getGridSize = 4, getSteps = 1, getOutSteps = 1, getNRotations = 1,
      getRenormalizeCharge = 0, getHaissinskiIterations = 0, getRotationType = 1,
      getVacuumChamberGap = 0, getDampingTime = 0, getSyncFreq = 1,
      getRevolutionFrequency = 1, getBendingRadius = 0, getAlpha0 = 1,
      getHarmonicNumber = 1, getRFVoltage = 1, getBeamEnergy = 1\<rparr>"

definition example_environment :: environment where
  "example_environment =
     \<lparr>isOfFileType = (\<lambda>ending file. False), physcons_c = 299792458,
      startdist_nMeshCells = 4, impedance_nFreqs = 3, display_present = False,
      max_vector_length = 2 ^ 32\<rparr>"

section \<open>Properties of the Fokker-Planck stencil\<close>

subsection \<open>Loops that rewrite one array element per iteration\<close>

lemma fold_upd_length:
  "length (fold (\<lambda>i xs. xs[i := f i (xs ! i)]) [a..<b] xs0) = length xs0"
  by (induction b) auto

lemma fold_upd_nth:
  "fold (\<lambda>i xs. xs[i := f i (xs ! i)]) [a..<b] xs0 ! k =
     (if a \<le> k \<and> k < b \<and> k < length xs0 then f k (xs0 ! k) else xs0 ! k)"
proof (induction b)
  case 0
  then show ?case by simp
next
  case (Suc b)
  show ?case
  proof (cases "a \<le> b")
    case True
    show ?thesis
    proof (cases "k = b")
      case True
      with \<open>a \<le> b\<close> Suc show ?thesis
        by (simp add: fold_upd_length list_update_beyond)
    next
      case False
      with \<open>a \<le> b\<close> Suc show ?thesis
        by (simp add: fold_upd_length)
    qed
  next
    case False
    then show ?thesis by auto
  qed
qed

lemma for_rows_length:
  "length (for_rows a b body col) = length col"
  by (simp add: for_rows_def fold_upd_length)

lemma for_rows_nth:
  "for_rows a b body col ! k =
     (if a \<le> k \<and> k < b \<and> k < length col then body k (col ! k) else col ! k)"
  by (simp add: for_rows_def fold_upd_nth)

lemma fp_column_length:
  "length (fp_column fpt e0 delta1 x1 ysize i col) = length col"
  by (cases fpt) (simp_all add: fp_column_def Let_def for_rows_length)

lemma assign3_replicate:
  "assign3 (replicate 3 h0) a b c = [a, b, c]"
  by (simp add: assign3_def numeral_3_eq_3)

lemma assign3_triple:
  "assign3 [x, y, z] a b c = [a, b, c]"
  by (simp add: assign3_def)

lemma FokkerPlanckMap_column:
  "i < xsize \<Longrightarrow>
   FokkerPlanckMap h0 xsize ysize delta1 x1 fpt e0 ! i =
     fp_column fpt e0 delta1 x1 ysize i (replicate ysize (replicate 3 h0))"
  by (simp add: FokkerPlanckMap_def alloc_heritage_map_def fold_upd_nth)

lemma fp_column_first:
  "0 < ysize \<Longrightarrow>
   fp_column fpt e0 delta1 x1 ysize i (replicate ysize (replicate 3 h0)) ! 0
     = [zero_hi, zero_hi, zero_hi]"
  by (cases fpt) (simp_all add: fp_column_def Let_def for_rows_nth for_rows_length
      nth_list_update assign3_replicate assign3_triple)

lemma fp_column_last:
  "0 < ysize \<Longrightarrow>
   fp_column fpt e0 delta1 x1 ysize i (replicate ysize (replicate 3 h0)) ! (ysize - 1)
     = [zero_hi, zero_hi, zero_hi]"
  by (cases fpt) (simp_all add: fp_column_def Let_def for_rows_nth for_rows_length
      nth_list_update assign3_replicate assign3_triple)

lemma fp_column_interior:
  "0 < j \<Longrightarrow> j < ysize - 1 \<Longrightarrow>
   fp_column fpt e0 delta1 x1 ysize i (replicate ysize (replicate 3 h0)) ! j
     = (case fpt of
          none \<Rightarrow> body_none ysize i j (replicate 3 h0)
        | damping_only \<Rightarrow> body_damping_only e0 delta1 x1 ysize i j (replicate 3 h0)
        | diffusion_only \<Rightarrow> body_diffusion_only e0 delta1 ysize i j (replicate 3 h0)
        | full \<Rightarrow> body_full e0 delta1 x1 ysize i j (replicate 3 h0)
        | fpt_other \<Rightarrow> replicate 3 h0)"
  by (cases fpt) (auto simp add: fp_column_def Let_def for_rows_nth for_rows_length
      nth_list_update)

subsection \<open>Rows of the constructed map\<close>

lemma FokkerPlanckMap_boundary:
  assumes "i < xsize" "0 < ysize" "j = 0 \<or> j = ysize - 1"
  shows "FokkerPlanckMap h0 xsize ysize delta1 x1 fpt e0 ! i ! j = [zero_hi, zero_hi, zero_hi]"
proof -
  from assms(3) show ?thesis
  proof
    assume "j = 0"
    with assms(1,2) show ?thesis
      using fp_column_first [of ysize fpt e0 delta1 x1 i h0]
      by (simp add: FokkerPlanckMap_column)
  next
    assume "j = ysize - 1"
    with assms(1,2) show ?thesis
      using fp_column_last [of ysize fpt e0 delta1 x1 i h0]
      by (simp add: FokkerPlanckMap_column)
  qed
qed

lemma FokkerPlanckMap_interior:
  assumes "i < xsize" "0 < j" "j < ysize - 1"
  shows "FokkerPlanckMap h0 xsize ysize delta1 x1 fpt e0 ! i ! j =
      (case fpt of
          none \<Rightarrow> body_none ysize i j (replicate 3 h0)
        | damping_only \<Rightarrow> body_damping_only e0 delta1 x1 ysize i j (replicate 3 h0)
        | diffusion_only \<Rightarrow> body_diffusion_only e0 delta1 ysize i j (replicate 3 h0)
        | full \<Rightarrow> body_full e0 delta1 x1 ysize i j (replicate 3 h0)
        | fpt_other \<Rightarrow> replicate 3 h0)"
  using assms by (simp add: FokkerPlanckMap_column fp_column_interior)

text \<open>
  The indices written by the constructor address cells of the mesh, and with
  \<^verbatim>\<open>uint16_t\<close> sizes they stay below \<open>2 ^ 32\<close>: the \<^verbatim>\<open>unsigned int\<close> arithmetic of
  \<^verbatim>\<open>i*_ysize+j+1\<close> does not wrap.
\<close>

lemma fp_index_no_wrap:
  assumes "xsize < 2 ^ 16" "ysize < 2 ^ 16" "i < xsize" "j < ysize - 1"
  shows "i * ysize + j + 1 < xsize * ysize" and "i * ysize + j + 1 < (2::nat) ^ 32"
proof -
  have "i * ysize + j + 1 < i * ysize + ysize" using assms by simp
  also have "\<dots> = Suc i * ysize" by simp
  also have "\<dots> \<le> xsize * ysize" using assms(3) by (intro mult_le_mono1) simp
  finally show lt: "i * ysize + j + 1 < xsize * ysize" .
  have "xsize * ysize \<le> 2 ^ 16 * 2 ^ 16"
    using assms(1,2) by (intro mult_le_mono) simp_all
  with lt show "i * ysize + j + 1 < (2::nat) ^ 32" by simp
qed

lemma cell_index:
  fixes i j xsize ysize :: nat
  assumes "i < xsize" "j < ysize"
  shows "i * ysize + j < xsize * ysize" "(i * ysize + j) div ysize = i" "(i * ysize + j) mod ysize = j"
proof -
  have "i * ysize + j < i * ysize + ysize" using assms(2) by simp
  also have "\<dots> = Suc i * ysize" by simp
  also have "\<dots> \<le> xsize * ysize" using assms(1) by (intro mult_le_mono1) simp
  finally show "i * ysize + j < xsize * ysize" .
  show "(i * ysize + j) div ysize = i" using assms(2) by simp
  show "(i * ysize + j) mod ysize = j" using assms(2) by simp
qed

lemma apply_map_nth:
  assumes "i < xsize" "j < ysize"
  shows "apply_map hm xsize ysize inp ! (i * ysize + j) = cell_value (hm ! i ! j) inp"
  using cell_index [OF assms] by (simp add: apply_map_def)

lemma apply_Identity_nth:
  assumes "i < xsize" "j < ysize"
  shows "apply_Identity xsize ysize inp ! (i * ysize + j) = inp ! (i * ysize + j)"
  using cell_index [OF assms] by (simp add: apply_Identity_def)

subsection \<open>The weights of the full stencil\<close>

text \<open>
  Claim C1, as the code has it. For every interior row \<open>j\<close> (\<open>0 < j < ysize - 1\<close>) of the
  map built with \<open>FPType::full\<close> and coefficient \<open>e\<close>, the three stencil entries are
  \<open>e/dp\<^sup>2 + e/(2 dp) \<sqdot> p\<^sub>j\<close> on cell \<open>j - 1\<close>, \<open>1 + e - 2 e/dp\<^sup>2\<close> on cell \<open>j\<close> and
  \<open>e/dp\<^sup>2 - e/(2 dp) \<sqdot> p\<^sub>j\<close> on cell \<open>j + 1\<close>: the diffusion part is \<open>e/dp\<^sup>2\<close>, twice
  the \<open>e/(2 dp\<^sup>2)\<close> of the specification's formulas.
\<close>

theorem fp_full_interior_weights:
  assumes "i < xsize" and "0 < j" and "j < ysize - 1"
  shows "FokkerPlanckMap h0 xsize ysize dp p full e ! i ! j =
    [\<lparr>index = i * ysize + j - 1, weight = e / dp\<^sup>2 + e / (2 * dp) * p j\<rparr>,
     \<lparr>index = i * ysize + j, weight = 1 + e - 2 * e / dp\<^sup>2\<rparr>,
     \<lparr>index = i * ysize + j + 1, weight = e / dp\<^sup>2 - e / (2 * dp) * p j\<rparr>]"
  using assms
  by (simp add: FokkerPlanckMap_interior body_full_def assign3_replicate
      e02d_def e02d2_def fptme_def power2_eq_square)

theorem fp_full_interior_weights_witness:
  "(0::nat) < 1 \<and> (0::nat) < 1 \<and> (1::nat) < 3 - 1 \<and>
   FokkerPlanckMap zero_hi 1 3 (1/2) real full 2 ! 0 ! 1 =
    [\<lparr>index = 0, weight = 10\<rparr>, \<lparr>index = 1, weight = - 13\<rparr>, \<lparr>index = 2, weight = 6\<rparr>]"
  using fp_full_interior_weights [of 0 1 1 3 zero_hi "1/2" real 2]
  by (simp add: power2_eq_square)

text \<open>
  At \<open>e = 2\<close>, \<open>dp = 1\<close>, \<open>p\<^sub>1 = 1\<close> the code's weights are \<open>3, -1, 1\<close>; the
  specification's formulas give \<open>2, 1, 0\<close>.
\<close>

theorem fp_full_spec_weights_counterexample:
  "weight (FokkerPlanckMap zero_hi 1 3 1 real full 2 ! 0 ! 1 ! 0) = 3 \<and>
   spec_w_minus 2 1 (real 1) = 2 \<and>
   weight (FokkerPlanckMap zero_hi 1 3 1 real full 2 ! 0 ! 1 ! 1) = - 1 \<and>
   spec_w_zero 2 1 = 1 \<and>
   weight (FokkerPlanckMap zero_hi 1 3 1 real full 2 ! 0 ! 1 ! 2) = 1 \<and>
   spec_w_plus 2 1 (real 1) = 0"
  by (simp add: FokkerPlanckMap_interior body_full_def assign3_replicate
      e02d_def e02d2_def fptme_def spec_w_minus_def spec_w_zero_def spec_w_plus_def)

subsection \<open>Sums of the weights\<close>

text \<open>
  Claim C2, as the code has it. The weights of a boundary row (\<open>j = 0\<close> or
  \<open>j = ysize - 1\<close>) sum to \<open>0\<close>. The weights of an interior row sum to \<open>1\<close> for the
  variants \<open>none\<close> and \<open>diffusion_only\<close> and to \<open>1 + e\<close> for \<open>damping_only\<close> and
  \<open>full\<close>; for a value of the enumeration outside the four variants the interior rows
  keep what the allocation left.
\<close>

theorem fp_weight_sums:
  assumes "i < xsize" and "j < ysize"
  shows "weight_sum (FokkerPlanckMap h0 xsize ysize dp p fpt e ! i ! j) =
    (if j = 0 \<or> j = ysize - 1 then 0
     else case fpt of
            none \<Rightarrow> 1
          | damping_only \<Rightarrow> 1 + e
          | diffusion_only \<Rightarrow> 1
          | full \<Rightarrow> 1 + e
          | fpt_other \<Rightarrow> 3 * weight h0)"
proof (cases "j = 0 \<or> j = ysize - 1")
  case True
  with assms show ?thesis
    by (simp add: FokkerPlanckMap_boundary weight_sum_def zero_hi_def)
next
  case False
  with assms have "0 < j" "j < ysize - 1" by auto
  with assms(1) False show ?thesis
    by (cases fpt)
      (simp_all add: FokkerPlanckMap_interior weight_sum_def assign3_replicate
        body_none_def body_damping_only_def body_diffusion_only_def body_full_def
        daome_def diome_def fptme_def sum_list_replicate)
qed

theorem fp_weight_sums_witness:
  "(0::nat) < 1 \<and> (1::nat) < 3 \<and>
   weight_sum (FokkerPlanckMap zero_hi 1 3 1 real damping_only 2 ! 0 ! 1) = 3 \<and>
   weight_sum (FokkerPlanckMap zero_hi 1 3 1 real diffusion_only 2 ! 0 ! 1) = 1 \<and>
   weight_sum (FokkerPlanckMap zero_hi 1 3 1 real diffusion_only 2 ! 0 ! 2) = 0"
  using fp_weight_sums [where i = 0 and xsize = 1 and j = 1 and ysize = 3 and ?h0.0 = zero_hi
      and dp = 1 and p = real and fpt = damping_only and e = 2]
    fp_weight_sums [where i = 0 and xsize = 1 and j = 1 and ysize = 3 and ?h0.0 = zero_hi
      and dp = 1 and p = real and fpt = diffusion_only and e = 2]
    fp_weight_sums [where i = 0 and xsize = 1 and j = 2 and ysize = 3 and ?h0.0 = zero_hi
      and dp = 1 and p = real and fpt = diffusion_only and e = 2]
  by simp

text \<open>
  A boundary row of the full stencil sums to \<open>0\<close> and, at \<open>e = 2\<close>, an interior row
  sums to \<open>3\<close>: neither is within \<open>10\<^sup>-\<^sup>6\<close> of \<open>1\<close>.
\<close>

theorem fp_weight_sums_counterexample:
  "weight_sum (FokkerPlanckMap zero_hi 1 3 1 real full 2 ! 0 ! 0) = 0 \<and>
   \<not> \<bar>weight_sum (FokkerPlanckMap zero_hi 1 3 1 real full 2 ! 0 ! 0) - 1\<bar> \<le> 1 / 10 ^ 6 \<and>
   weight_sum (FokkerPlanckMap zero_hi 1 3 1 real full 2 ! 0 ! 1) = 3 \<and>
   \<not> \<bar>weight_sum (FokkerPlanckMap zero_hi 1 3 1 real full 2 ! 0 ! 1) - 1\<bar> \<le> 1 / 10 ^ 6"
  by (simp add: FokkerPlanckMap_interior FokkerPlanckMap_boundary weight_sum_def zero_hi_def
      body_full_def assign3_replicate e02d_def e02d2_def fptme_def)

subsection \<open>Applying the map\<close>

text \<open>
  Claim C5. For every variant, the three stencil entries of the boundary rows \<open>j = 0\<close>
  and \<open>j = ysize - 1\<close> are the pair \<open>{0,0}\<close>, and the cells of these rows in the output
  of \<open>apply\<close> are \<open>0\<close> whatever the input mesh holds.
\<close>

theorem fp_boundary_rows_zero:
  assumes "i < xsize" and "0 < ysize" and "j = 0 \<or> j = ysize - 1"
  shows "FokkerPlanckMap h0 xsize ysize dp p fpt e ! i ! j = [zero_hi, zero_hi, zero_hi] \<and>
    apply_map (FokkerPlanckMap h0 xsize ysize dp p fpt e) xsize ysize inp ! (i * ysize + j) = 0"
proof -
  from assms have j: "j < ysize" by auto
  show ?thesis
    using assms
    by (simp add: apply_map_nth [OF assms(1) j] FokkerPlanckMap_boundary cell_value_def zero_hi_def)
qed

theorem fp_boundary_rows_zero_witness:
  "(0::nat) < 1 \<and> (0::nat) < 3 \<and> ((2::nat) = 0 \<or> (2::nat) = 3 - 1) \<and>
   FokkerPlanckMap zero_hi 1 3 1 real full 2 ! 0 ! 2 = [zero_hi, zero_hi, zero_hi] \<and>
   apply_map (FokkerPlanckMap zero_hi 1 3 1 real full 2) 1 3 [5, 6, 7] ! (0 * 3 + 2) = 0"
  using fp_boundary_rows_zero [where i = 0 and xsize = 1 and ysize = 3 and j = 2
      and ?h0.0 = zero_hi and dp = 1 and p = real and fpt = full and e = 2 and inp = "[5, 6, 7]"]
  by simp

text \<open>
  Claim C4, as the code has it. Applying the map built with \<open>FPType::none\<close> copies every
  cell of an interior row (\<open>0 < j < ysize - 1\<close>) from the input, as the Identity map
  does, and sets every cell of the boundary rows \<open>j = 0\<close> and \<open>j = ysize - 1\<close> to \<open>0\<close>.
\<close>

theorem fp_none_apply:
  assumes "i < xsize" and "j < ysize"
  shows "apply_map (FokkerPlanckMap h0 xsize ysize dp p none e) xsize ysize inp ! (i * ysize + j) =
           (if j = 0 \<or> j = ysize - 1 then 0 else inp ! (i * ysize + j)) \<and>
         apply_Identity xsize ysize inp ! (i * ysize + j) = inp ! (i * ysize + j)"
proof (cases "j = 0 \<or> j = ysize - 1")
  case True
  with assms show ?thesis
    by (simp add: apply_map_nth apply_Identity_nth FokkerPlanckMap_boundary cell_value_def zero_hi_def)
next
  case False
  with assms have "0 < j" "j < ysize - 1" by auto
  with assms False show ?thesis
    by (simp add: apply_map_nth apply_Identity_nth FokkerPlanckMap_interior cell_value_def
        body_none_def assign3_replicate)
qed

theorem fp_none_apply_witness:
  "(0::nat) < 1 \<and> (1::nat) < 3 \<and>
   apply_map (FokkerPlanckMap zero_hi 1 3 1 real none 0) 1 3 [5, 6, 7] ! (0 * 3 + 1) = 6 \<and>
   apply_Identity 1 3 [5, 6, 7] ! (0 * 3 + 1) = 6"
  using fp_none_apply [where i = 0 and xsize = 1 and j = 1 and ysize = 3
      and ?h0.0 = zero_hi and dp = 1 and p = real and e = 0 and inp = "[5, 6, 7]"]
  by simp

text \<open>
  On a mesh of one column holding \<open>1, 1, 1\<close> the map of \<open>FPType::none\<close> returns
  \<open>0, 1, 0\<close>, the Identity map \<open>1, 1, 1\<close>.
\<close>

theorem fp_none_not_identity_counterexample:
  "apply_map (FokkerPlanckMap zero_hi 1 3 1 real none 0) 1 3 [1, 1, 1] = [0, 1, 0] \<and>
   apply_Identity 1 3 [1, 1, 1] = [1, 1, 1]"
  by (simp add: apply_map_def apply_Identity_def cell_value_def upt_rec
      FokkerPlanckMap_interior FokkerPlanckMap_boundary body_none_def assign3_replicate zero_hi_def)

section \<open>Properties of the main loop\<close>

subsection \<open>Rounding to single precision\<close>

lemma round_ties_even_of_int: "round_ties_even (of_int k) = k"
  by (simp add: round_ties_even_def)



lemma float32_exact:
  assumes "x / 2 powi (float_exponent x - 23) = of_int k"
  shows "float32 x = x"
proof (cases "x = 0")
  case True
  then show ?thesis by (simp add: float32_def)
next
  case False
  have "float32 x = of_int k * 2 powi (float_exponent x - 23)"
    using False by (simp add: float32_def assms round_ties_even_of_int)
  also have "\<dots> = x"
    using assms by (simp add: field_simps)
  finally show ?thesis .
qed

lemma float32_nat_exact:
  assumes "n \<le> 2 ^ 24"
  shows "float32 (real n) = real n"
proof (cases "n = 0")
  case True
  then show ?thesis by (simp add: float32_def)
next
  case False
  define e where "e = \<lfloor>log 2 (real n)\<rfloor>"
  have n1: "1 \<le> real n" using False by simp
  have e0: "0 \<le> e" unfolding e_def using n1 by simp
  have lo: "2 powr real_of_int e \<le> real n"
    unfolding e_def using n1 floor_log_eq_powr_iff [of "real n" 2 "\<lfloor>log 2 (real n)\<rfloor>"] by simp
  have fe: "float_exponent (real n) = e"
    using e0 by (simp add: float_exponent_def e_def)
  have lo': "(2::real) ^ nat e \<le> real n"
    using lo e0 by (simp add: powr_real_of_int)
  have n24: "real n \<le> 2 ^ 24"
    using assms by (metis of_nat_le_iff of_nat_numeral of_nat_power)
  with lo' have "(2::real) ^ nat e \<le> 2 ^ 24" by linarith
  then have "nat e \<le> 24" by (simp only: power_increasing_iff [of 2] one_less_numeral_iff semiring_norm)
  then have e24: "e \<le> 24" using e0 by simp
  show ?thesis
  proof (cases "e = 24")
    case True
    with lo' n24 have "real n = 2 ^ 24"
      by simp
    then have "real n / 2 powi (e - 23) = of_int (2 ^ 23)"
      using True by simp
    then have "real n / 2 powi (float_exponent (real n) - 23) = of_int (2 ^ 23)"
      by (simp only: fe)
    then show ?thesis by (rule float32_exact)
  next
    case False
    with e24 have le: "e \<le> 23" by simp
    have "(2::real) powi (e - 23) = 1 / 2 ^ nat (23 - e)"
      using le by (simp add: power_int_def power_one_over)
    then have "real n / 2 powi (e - 23) = of_int (int n * 2 ^ nat (23 - e))"
      by simp
    then have "real n / 2 powi (float_exponent (real n) - 23) = of_int (int n * 2 ^ nat (23 - e))"
      by (simp only: fe)
    then show ?thesis by (rule float32_exact)
  qed
qed

lemma float32_one: "float32 1 = 1"
  using float32_nat_exact [of 1] by simp

lemma float32_numeral:
  assumes "(numeral k :: nat) \<le> 2 ^ 24"
  shows "float32 (numeral k) = numeral k"
  using float32_nat_exact [OF assms] by simp








subsection \<open>Counting the iterations\<close>

















subsection \<open>The order of the calls in one step\<close>

text \<open>
  Claim C3, as the code has it. In every iteration of the main loop, the calls on the
  maps and the projection update come in this order: the wake-kick map's \<open>update()\<close>,
  which is made only when a wake-kick map was built and whose map reads \<open>mesh1\<close>; the
  \<open>apply()\<close> of the wake stage, writing \<open>mesh2\<close>; the \<open>apply()\<close> of the rotation map, or of
  the RF-kick map followed by the drift map, the last of them writing \<open>mesh3\<close>; the
  \<open>apply()\<close> of the Fokker-Planck stage, writing \<open>mesh1\<close>; \<open>mesh1.updateXProjection()\<close>.
\<close>

theorem loop_body_stage_order:
  "filter is_stage (loop_body opts env i) =
     (case build_wkm opts of Some w \<Rightarrow> [Update w] | None \<Rightarrow> [])
     @ [Apply (build_wm opts), Apply (build_rm1 opts)]
     @ (case build_rm2 opts of Some r \<Rightarrow> [Apply r] | None \<Rightarrow> [])
     @ [Apply (build_fpm opts env), UpdateXProjection]
   \<and> (case build_wkm opts of Some w \<Rightarrow> sm_in w = mesh1 | None \<Rightarrow> True)
   \<and> sm_out (build_wm opts) = mesh2
   \<and> sm_out (case build_rm2 opts of Some r \<Rightarrow> r | None \<Rightarrow> build_rm1 opts) = mesh3
   \<and> sm_out (build_fpm opts env) = mesh1"
  by (simp add: loop_body_def build_wm_def build_wkm_def build_rm1_def build_rm2_def
      build_fpm_def split: option.splits)

theorem loop_body_stage_order_witness:
  "filter is_stage
     (loop_body (example_options\<lparr>getVacuumChamberGap := 1, getRotationType := 2\<rparr>)
        example_environment 0) =
     [Update \<lparr>sm_class = cWakePotentialMap, sm_in = mesh1, sm_out = mesh2\<rparr>,
      Apply \<lparr>sm_class = cWakePotentialMap, sm_in = mesh1, sm_out = mesh2\<rparr>,
      Apply \<lparr>sm_class = cRFKickMap, sm_in = mesh2, sm_out = mesh1\<rparr>,
      Apply \<lparr>sm_class = cDriftMap, sm_in = mesh1, sm_out = mesh3\<rparr>,
      Apply \<lparr>sm_class = cIdentity, sm_in = mesh3, sm_out = mesh1\<rparr>,
      UpdateXProjection]"
  using loop_body_stage_order
    [where opts = "example_options\<lparr>getVacuumChamberGap := 1, getRotationType := 2\<rparr>"
       and env = example_environment and i = 0]
  by (simp add: build_wm_def build_wkm_def build_rm1_def build_rm2_def
      build_fpm_def e1_def t_d_def example_options_def)

text \<open>
  With no vacuum chamber gap and no wake file, the step makes no call of \<open>update()\<close>.
\<close>

theorem loop_body_stage_order_counterexample:
  "filter is_stage (loop_body example_options example_environment 0) =
     [Apply \<lparr>sm_class = cIdentity, sm_in = mesh1, sm_out = mesh2\<rparr>,
      Apply \<lparr>sm_class = cRotationMap, sm_in = mesh2, sm_out = mesh3\<rparr>,
      Apply \<lparr>sm_class = cIdentity, sm_in = mesh3, sm_out = mesh1\<rparr>,
      UpdateXProjection]
   \<and> filter is_update (loop_body example_options example_environment 0) = []"
  by (simp add: loop_body_def build_wm_def build_wkm_def build_rm1_def build_rm2_def
      build_fpm_def e1_def t_d_def example_options_def)

subsection \<open>Renormalisation\<close>

text \<open>
  Claim C7. In the step with index \<open>i\<close>, if the renormalisation period is positive and
  divides \<open>i\<close>, the step calls \<open>mesh1.normalize()\<close>; in every other case, a period of \<open>0\<close>
  included, it calls \<open>mesh1.integral()\<close>; it makes exactly one of the two calls, once.
\<close>

theorem loop_body_renormalize:
  "filter is_normalize_or_integral (loop_body opts env i) =
     (if getRenormalizeCharge opts > 0 \<and> getRenormalizeCharge opts dvd int i
      then [Normalize] else [Integral])"
  by (simp add: loop_body_def mod_eq_0_iff_dvd split: option.splits)

theorem loop_body_renormalize_witness:
  "filter is_normalize_or_integral
     (loop_body (example_options\<lparr>getRenormalizeCharge := 2\<rparr>) example_environment 4) = [Normalize]
   \<and> filter is_normalize_or_integral
     (loop_body (example_options\<lparr>getRenormalizeCharge := 2\<rparr>) example_environment 3) = [Integral]
   \<and> filter is_normalize_or_integral
     (loop_body (example_options\<lparr>getRenormalizeCharge := 0\<rparr>) example_environment 4) = [Integral]"
  using loop_body_renormalize [of "example_options\<lparr>getRenormalizeCharge := 2\<rparr>" example_environment 4]
    loop_body_renormalize [of "example_options\<lparr>getRenormalizeCharge := 2\<rparr>" example_environment 3]
    loop_body_renormalize [of "example_options\<lparr>getRenormalizeCharge := 0\<rparr>" example_environment 4]
  by simp

subsection \<open>No wake\<close>



subsection \<open>The number of steps per synchrotron period\<close>

text \<open>
  Claim C9, as the code has it. The number of steps per synchrotron period that is used
  is the maximum of the configured value and \<open>1\<close>, so it is at least \<open>1\<close> (it is \<open>1\<close> when
  \<open>0\<close> is configured) and the denominator of the rotation angle \<open>2\<pi>/steps\<close> is never
  zero. The denominator \<open>f\<^sub>s \<sqdot> steps\<close> of the time increment is zero exactly when \<open>f\<^sub>s\<close>
  is: never because of the steps.
\<close>

theorem steps_clamped:
  "steps opts = max (getSteps opts) 1
   \<and> 1 \<le> steps opts
   \<and> steps (opts\<lparr>getSteps := 0\<rparr>) = 1
   \<and> real (steps opts) \<noteq> 0
   \<and> angle opts = 2 * pi / real (steps opts)
   \<and> dt opts env = 1 / (fs opts env * real (steps opts))
   \<and> (fs opts env * real (steps opts) = 0 \<longleftrightarrow> fs opts env = 0)"
  by (simp add: steps_def angle_def dt_def dt_denominator_def)

theorem steps_clamped_witness:
  "steps (example_options\<lparr>getSteps := 0\<rparr>) = 1
   \<and> angle (example_options\<lparr>getSteps := 0\<rparr>) = 2 * pi
   \<and> dt (example_options\<lparr>getSteps := 0\<rparr>) example_environment = 1"
  using steps_clamped [where opts = "example_options\<lparr>getSteps := 0\<rparr>"
      and env = example_environment]
  by (simp add: fs_def fs_unscaled_def isoscale_def f0_def example_options_def)

text \<open>
  With a synchrotron frequency of \<open>0\<close> configured, the denominator of the time increment
  is \<open>0\<close>.
\<close>

theorem dt_division_by_zero_counterexample:
  "fs (example_options\<lparr>getSyncFreq := 0\<rparr>) example_environment
     * real (steps (example_options\<lparr>getSyncFreq := 0\<rparr>)) = 0"
  by (simp add: fs_def fs_unscaled_def example_options_def)

section \<open>Properties of the program\<close>

text \<open>With an output stride of \<open>0\<close> the run is aborted before the impedance is loaded.\<close>

lemma main_aborts_without_outsteps:
  assumes "parse opts = parse_true" and "\<not> getCLDevice opts < 0"
    and "load_startdist opts env = None" and "getOutSteps opts = 0"
  shows "main opts env = Some Aborted"
  using assms by (simp add: main_def csrlog_constructed_def)

lemma example_csrlog:
  "csrlog_constructed (example_options\<lparr>getImpedanceFile := ''Z.dat''\<rparr>) example_environment"
proof -
  have b: "loop_bound (example_options\<lparr>getImpedanceFile := ''Z.dat''\<rparr>) = 1"
    by (simp add: loop_bound_def steps_def example_options_def float32_one)
  have o: "getOutSteps (example_options\<lparr>getImpedanceFile := ''Z.dat''\<rparr>) = 1"
    by (simp add: example_options_def)
  have l: "csrlog_length (example_options\<lparr>getImpedanceFile := ''Z.dat''\<rparr>) = 2"
    by (simp add: csrlog_length_def b o float32_one float32_numeral)
  show ?thesis
    by (simp add: csrlog_constructed_def l o example_environment_def)
qed

text \<open>
  Claim C8, as the code has it. If the run reaches the loading of the impedance, the
  impedance is read from a file and that file yields fewer than \<open>N\<close> frequency samples
  (\<open>N\<close> the grid size), the program writes "No valid impedance file. Will now quit."
  and returns before any simulation step runs; the exit status it returns is
  \<^verbatim>\<open>EXIT_SUCCESS\<close>.
\<close>

theorem impedance_file_too_short:
  assumes "parse opts = parse_true" and "\<not> getCLDevice opts < 0"
    and "load_startdist opts env = None"
    and "csrlog_constructed opts env"
    and "getImpedanceFile opts \<noteq> []"
    and "impedance_nFreqs env < getGridSize opts"
  shows "main opts env = Some (Quit EXIT_SUCCESS ''No valid impedance file. Will now quit.'')"
  using assms by (simp add: main_def load_impedance_def)

theorem impedance_file_too_short_witness:
  "parse (example_options\<lparr>getImpedanceFile := ''Z.dat''\<rparr>) = parse_true
   \<and> \<not> getCLDevice (example_options\<lparr>getImpedanceFile := ''Z.dat''\<rparr>) < 0
   \<and> load_startdist (example_options\<lparr>getImpedanceFile := ''Z.dat''\<rparr>) example_environment = None
   \<and> csrlog_constructed (example_options\<lparr>getImpedanceFile := ''Z.dat''\<rparr>) example_environment
   \<and> getImpedanceFile (example_options\<lparr>getImpedanceFile := ''Z.dat''\<rparr>) \<noteq> []
   \<and> impedance_nFreqs example_environment
        < getGridSize (example_options\<lparr>getImpedanceFile := ''Z.dat''\<rparr>)
   \<and> main (example_options\<lparr>getImpedanceFile := ''Z.dat''\<rparr>) example_environment =
       Some (Quit EXIT_SUCCESS ''No valid impedance file. Will now quit.'')"
proof -
  have h: "parse (example_options\<lparr>getImpedanceFile := ''Z.dat''\<rparr>) = parse_true"
    "\<not> getCLDevice (example_options\<lparr>getImpedanceFile := ''Z.dat''\<rparr>) < 0"
    "load_startdist (example_options\<lparr>getImpedanceFile := ''Z.dat''\<rparr>) example_environment = None"
    "csrlog_constructed (example_options\<lparr>getImpedanceFile := ''Z.dat''\<rparr>) example_environment"
    "getImpedanceFile (example_options\<lparr>getImpedanceFile := ''Z.dat''\<rparr>) \<noteq> []"
    "impedance_nFreqs example_environment
        < getGridSize (example_options\<lparr>getImpedanceFile := ''Z.dat''\<rparr>)"
  proof -
    show "csrlog_constructed (example_options\<lparr>getImpedanceFile := ''Z.dat''\<rparr>) example_environment"
      by (rule example_csrlog)
  qed (simp_all add: example_options_def example_environment_def load_startdist_def)
  from h impedance_file_too_short [OF h] show ?thesis by blast
qed

text \<open>
  For a file with \<open>3\<close> samples and a grid of size \<open>4\<close> the program returns
  \<^verbatim>\<open>EXIT_SUCCESS\<close>, not \<^verbatim>\<open>EXIT_FAILURE\<close>.
\<close>

theorem impedance_file_exit_status_counterexample:
  "main (example_options\<lparr>getImpedanceFile := ''Z.dat''\<rparr>) example_environment =
       Some (Quit EXIT_SUCCESS ''No valid impedance file. Will now quit.'')
   \<and> main (example_options\<lparr>getImpedanceFile := ''Z.dat''\<rparr>) example_environment \<noteq>
       Some (Quit EXIT_FAILURE ''No valid impedance file. Will now quit.'')"
proof -
  define opts where "opts = example_options\<lparr>getImpedanceFile := ''Z.dat''\<rparr>"
  have h1: "parse opts = parse_true" and h2: "\<not> getCLDevice opts < 0"
    and h3: "load_startdist opts example_environment = None"
    and h5: "load_impedance opts example_environment =
               Some (EXIT_SUCCESS, ''No valid impedance file. Will now quit.'')"
    by (simp_all add: opts_def example_options_def example_environment_def load_startdist_def
        load_impedance_def)
  have h4: "csrlog_constructed opts example_environment"
    unfolding opts_def by (rule example_csrlog)
  have "main opts example_environment =
       Some (Quit EXIT_SUCCESS ''No valid impedance file. Will now quit.'')"
    by (simp add: main_def h1 h2 h3 h4 h5)
  then show ?thesis by (simp add: opts_def)
qed

end
